theory Spec2Isabelle
  imports Complex_Main
begin

section \<open>JavaScript values\<close>

text \<open>
  Response bodies, token payloads, thrown errors and the arguments handed to the external
  adapters are JavaScript values. Numbers are IEEE doubles in the program; the model
  computes with exact rationals. \<open>JJwt k cs\<close> stands for the compact string of a token
  signed with key \<open>k\<close> over the claims \<open>cs\<close> (a symbolic signature: the only way to obtain
  a token that verifies under \<open>k\<close> is to sign with \<open>k\<close>).
\<close>

datatype jsval =
    JUndefined
  | JNull
  | JBool bool
  | JNum rat
  | JStr string
  | JArr "jsval list"
  | JObj "(string \<times> jsval) list"
  | JJwt string "(string \<times> jsval) list"

fun truthy :: "jsval \<Rightarrow> bool" where
  "truthy JUndefined = False"
| "truthy JNull = False"
| "truthy (JBool b) = b"
| "truthy (JNum n) = (n \<noteq> 0)"
| "truthy (JStr s) = (s \<noteq> [])"
| "truthy (JArr xs) = True"
| "truthy (JObj fs) = True"
| "truthy (JJwt k cs) = True"

text \<open>\<open>a || b\<close>\<close>

definition js_or :: "jsval \<Rightarrow> jsval \<Rightarrow> jsval" where
  "js_or a b = (if truthy a then a else b)"

text \<open>\<open>v?.k\<close>: the property \<open>k\<close> of an object, \<open>undefined\<close> when it is absent or when
  \<open>v\<close> is \<open>undefined\<close> or \<open>null\<close>.\<close>

fun js_get :: "jsval \<Rightarrow> string \<Rightarrow> jsval" where
  "js_get (JObj fs) k = (case map_of fs k of Some v \<Rightarrow> v | None \<Rightarrow> JUndefined)"
| "js_get v k = JUndefined"

fun has_key :: "jsval \<Rightarrow> string \<Rightarrow> bool" where
  "has_key (JObj fs) k = (k \<in> fst ` set fs)"
| "has_key v k = False"

text \<open>A field of a document that is left out of the JSON output when it is not set.\<close>

definition opt_field :: "string \<Rightarrow> ('a \<Rightarrow> jsval) \<Rightarrow> 'a option \<Rightarrow> (string \<times> jsval) list" where
  "opt_field k f v = (case v of None \<Rightarrow> [] | Some x \<Rightarrow> [(k, f x)])"

text \<open>\<open>.select('-a -b')\<close>: the document without the named fields.\<close>

fun select_minus :: "string list \<Rightarrow> jsval \<Rightarrow> jsval" where
  "select_minus ks (JObj fs) = JObj (filter (\<lambda>(k, v). k \<notin> set ks) fs)"
| "select_minus ks v = v"

definition msg :: "string \<Rightarrow> jsval" where
  "msg s = JObj [(''msg'', JStr s)]"

definition TypeError :: "string \<Rightarrow> jsval" where
  "TypeError s = JObj [(''name'', JStr ''TypeError''), (''message'', JStr s)]"

text \<open>\<open>String.prototype.toUpperCase\<close> on ASCII text.\<close>

definition upper_table :: "(char \<times> char) list" where
  "upper_table = zip ''abcdefghijklmnopqrstuvwxyz'' ''ABCDEFGHIJKLMNOPQRSTUVWXYZ''"

definition toUpperCase_char :: "char \<Rightarrow> char" where
  "toUpperCase_char c = (case map_of upper_table c of Some d \<Rightarrow> d | None \<Rightarrow> c)"

definition toUpperCase :: "string \<Rightarrow> string" where
  "toUpperCase s = map toUpperCase_char s"

text \<open>\<open>Math.round\<close>: to the nearest integer, halves towards plus infinity.\<close>

definition Math_round :: "rat \<Rightarrow> rat" where
  "Math_round x = of_int \<lfloor>x + 1 / 2\<rfloor>"

section \<open>Documents and the store\<close>

text \<open>
  The schemas of the collections the modelled routes touch. Identifiers are opaque strings;
  references to users are kept as the values the handlers put there (\<open>req.user.id\<close>).
  Dates are milliseconds.
\<close>

record user =
  user_id :: string
  user_email :: string
  user_password :: string
  user_name :: "string option"
  user_graduationYear :: "rat option"
  user_bio :: "string option"
  user_location :: "string option"
  user_profilePic :: "string option"
  user_role :: string
  user_isApproved :: bool

record news =
  news_id :: string
  news_title :: "string option"
  news_content :: "string option"
  news_author :: jsval
  news_date :: int

record reply =
  reply_content :: "string option"
  reply_author :: jsval
  reply_date :: int

record thread =
  thread_id :: string
  thread_title :: "string option"
  thread_content :: "string option"
  thread_author :: jsval
  thread_date :: int
  thread_replies :: "reply list"

record donation =
  donation_id :: string
  donation_amount :: rat
  donation_donor :: jsval
  donation_date :: int

record boardMinute =
  minute_id :: string
  minute_title :: string
  minute_fileUrl :: string
  minute_date :: int

record store =
  users :: "user list"
  newsItems :: "news list"
  threads :: "thread list"
  donations :: "donation list"
  boardMinutes :: "boardMinute list"

definition user_json :: "user \<Rightarrow> jsval" where
  "user_json u = JObj (
     [(''_id'', JStr (user_id u)),
      (''email'', JStr (user_email u)),
      (''password'', JStr (user_password u))]
     @ opt_field ''name'' JStr (user_name u)
     @ opt_field ''graduationYear'' JNum (user_graduationYear u)
     @ opt_field ''bio'' JStr (user_bio u)
     @ opt_field ''location'' JStr (user_location u)
     @ opt_field ''profilePic'' JStr (user_profilePic u)
     @ [(''role'', JStr (user_role u)),
        (''isApproved'', JBool (user_isApproved u))])"

definition news_json :: "news \<Rightarrow> jsval" where
  "news_json n = JObj (
     [(''_id'', JStr (news_id n))]
     @ opt_field ''title'' JStr (news_title n)
     @ opt_field ''content'' JStr (news_content n)
     @ [(''author'', news_author n), (''date'', JNum (of_int (news_date n)))])"

definition reply_json :: "reply \<Rightarrow> jsval" where
  "reply_json r = JObj (
     opt_field ''content'' JStr (reply_content r)
     @ [(''author'', reply_author r), (''date'', JNum (of_int (reply_date r)))])"

definition thread_json :: "thread \<Rightarrow> jsval" where
  "thread_json t = JObj (
     [(''_id'', JStr (thread_id t))]
     @ opt_field ''title'' JStr (thread_title t)
     @ opt_field ''content'' JStr (thread_content t)
     @ [(''author'', thread_author t), (''date'', JNum (of_int (thread_date t))),
        (''replies'', JArr (map reply_json (thread_replies t)))])"

definition minute_json :: "boardMinute \<Rightarrow> jsval" where
  "minute_json m = JObj
     [(''_id'', JStr (minute_id m)), (''title'', JStr (minute_title m)),
      (''fileUrl'', JStr (minute_fileUrl m)), (''date'', JNum (of_int (minute_date m)))]"

definition findOne_email :: "user list \<Rightarrow> string \<Rightarrow> user option" where
  "findOne_email us e = find (\<lambda>u. user_email u = e) us"

text \<open>\<open>User.findById(v)\<close>: \<open>null\<close> when \<open>v\<close> is no identifier of a stored user.\<close>

fun findById_user :: "user list \<Rightarrow> jsval \<Rightarrow> user option" where
  "findById_user us (JStr i) = find (\<lambda>u. user_id u = i) us"
| "findById_user us v = None"

definition populate_name :: "user list \<Rightarrow> jsval \<Rightarrow> jsval" where
  "populate_name us r = (case findById_user us r of
       None \<Rightarrow> JNull
     | Some u \<Rightarrow> JObj ([(''_id'', JStr (user_id u))] @ opt_field ''name'' JStr (user_name u)))"

definition donation_json :: "user list \<Rightarrow> donation \<Rightarrow> jsval" where
  "donation_json us d = JObj
     [(''_id'', JStr (donation_id d)), (''amount'', JNum (donation_amount d)),
      (''donor'', populate_name us (donation_donor d)),
      (''date'', JNum (of_int (donation_date d)))]"

section \<open>The environment of a request\<close>

text \<open>
  The places where a handler awaits the document store. Each of them may throw (store
  unreachable, write rejected); the environment says which do, and with what error.
\<close>

datatype site =
    AdminMw_findById
  | Signup_findOne
  | Signup_save
  | Login_findOne
  | Directory_find
  | News_save
  | Reply_findById
  | Reply_save
  | Verify_save
  | Donations_find
  | Minutes_find
  | Minutes_save
  | AdminUsers_find
  | Approve_findByIdAndUpdate

record verify_data =
  vd_status :: string
  vd_amount :: rat

text \<open>
  Everything a handler reads from outside the store: configuration, the clock, the
  generators of identifiers and random suffixes, and the external collaborators (password
  hashing, payment gateway, email transport, the store's regular-expression operator and
  its cast of a query string to a number). The gateway answers are typed by the fields the
  handlers read: \<open>response.data.authorization_url\<close>, \<open>response.data.status\<close> and
  \<open>response.data.amount\<close>.
\<close>

record env =
  JWT_SECRET :: string
  EMAIL_USER :: string
  now :: int
  currentYear :: int
  random_suffix :: string
  new_id :: string
  store_fault :: "site \<Rightarrow> jsval option"
  bcrypt_hash :: "string \<Rightarrow> string"
  bcrypt_compare :: "string \<Rightarrow> string \<Rightarrow> bool"
  paystack_initialize :: "jsval \<Rightarrow> jsval + string"
  paystack_verify :: "string \<Rightarrow> jsval + verify_data"
  sendMail :: "jsval \<Rightarrow> jsval option"
  regex_i :: "string \<Rightarrow> (string \<Rightarrow> bool) option"
  cast_number :: "string \<Rightarrow> rat option"

text \<open>What a handler does besides answering and writing to the store, in order.\<close>

datatype effect =
    ConsoleError "jsval list"
  | PaystackInitialize jsval
  | PaystackVerify string
  | SendMail jsval

text \<open>
  A handler either sends a response (status and JSON body) or throws out of its
  \<open>async\<close> function with no response sent.
\<close>

datatype outcome =
    Response nat jsval
  | Uncaught jsval

type_synonym result = "outcome \<times> store \<times> effect list"

section \<open>Session tokens\<close>

text \<open>\<open>jwt.sign(payload, secret, { expiresIn: '7d' })\<close>: the payload with the issue time and
  the expiry, in seconds.\<close>

definition jwt_sign :: "(string \<times> jsval) list \<Rightarrow> string \<Rightarrow> int \<Rightarrow> jsval" where
  "jwt_sign payload secret now_ms =
     JJwt secret (payload @
       [(''iat'', JNum (of_int (now_ms div 1000))),
        (''exp'', JNum (of_int (now_ms div 1000 + 7 * 24 * 60 * 60)))])"

text \<open>\<open>jwt.verify(token, secret)\<close>: the decoded payload, or a thrown error.\<close>

fun jwt_verify :: "jsval \<Rightarrow> string \<Rightarrow> int \<Rightarrow> jsval + jsval" where
  "jwt_verify (JJwt k cs) secret now_ms =
     (if k \<noteq> secret then Inl (JObj [(''name'', JStr ''JsonWebTokenError''), (''message'', JStr ''invalid signature'')])
      else (case map_of cs ''exp'' of
              Some (JNum e) \<Rightarrow>
                (if of_int (now_ms div 1000) \<ge> e
                 then Inl (JObj [(''name'', JStr ''TokenExpiredError''), (''message'', JStr ''jwt expired'')])
                 else Inr (JObj cs))
            | _ \<Rightarrow> Inr (JObj cs)))"
| "jwt_verify v secret now_ms =
     Inl (JObj [(''name'', JStr ''JsonWebTokenError''), (''message'', JStr ''jwt malformed'')])"

section \<open>Middleware\<close>

text \<open>
  \<open>authMiddleware\<close>. The argument is the Authorization header after
  \<open>.replace('Bearer ', '')\<close>, \<open>None\<close> when the header is absent. \<open>Inr\<close> is \<open>next()\<close> with
  \<open>req.user\<close> set to the decoded payload.
\<close>

definition authMiddleware :: "env \<Rightarrow> jsval option \<Rightarrow> outcome + jsval" where
  "authMiddleware e header =
     (case header of
        None \<Rightarrow> Inl (Response 401 (msg ''No token''))
      | Some token \<Rightarrow>
          if \<not> truthy token then Inl (Response 401 (msg ''No token''))
          else (case jwt_verify token (JWT_SECRET e) (now e) of
                  Inr decoded \<Rightarrow> Inr decoded
                | Inl err \<Rightarrow> Inl (Response 401 (msg ''Invalid token''))))"

text \<open>\<open>adminMiddleware\<close>. \<open>None\<close> is \<open>next()\<close>. The store read is not inside a \<open>try\<close>.\<close>

definition adminMiddleware :: "env \<Rightarrow> store \<Rightarrow> jsval \<Rightarrow> outcome option" where
  "adminMiddleware e st req_user =
     (case store_fault e AdminMw_findById of
        Some err \<Rightarrow> Some (Uncaught err)
      | None \<Rightarrow>
          (case findById_user (users st) (js_get req_user ''id'') of
             None \<Rightarrow> Some (Response 403 (msg ''Admin access required''))
           | Some u \<Rightarrow>
               if user_role u \<noteq> ''admin''
               then Some (Response 403 (msg ''Admin access required''))
               else None))"

section \<open>Signup and login\<close>

record signup_body =
  sb_email :: string
  sb_password :: string
  sb_name :: "string option"
  sb_graduationYear :: "rat option"

text \<open>
  \<open>POST /api/auth/signup\<close>. A comparison with an absent \<open>graduationYear\<close> is false, so
  the range check lets it through. The schema requires a non-empty email; \<open>save\<close> throws
  on an empty one.
\<close>

definition signup :: "env \<Rightarrow> store \<Rightarrow> signup_body \<Rightarrow> result" where
  "signup e st body =
     (case store_fault e Signup_findOne of
        Some err \<Rightarrow> (Response 500 (msg ''Server error''), st, [ConsoleError [err]])
      | None \<Rightarrow>
          (case findOne_email (users st) (sb_email body) of
             Some u \<Rightarrow> (Response 400 (msg ''User already exists''), st, [])
           | None \<Rightarrow>
               if (case sb_graduationYear body of
                     None \<Rightarrow> False
                   | Some y \<Rightarrow> y < 1950 \<or> y > of_int (currentYear e + 10))
               then (Response 400 (msg ''Invalid graduation year''), st, [])
               else
                 (case (if sb_email body = []
                        then Some (JObj [(''name'', JStr ''ValidationError''),
                                         (''message'', JStr ''User validation failed'')])
                        else store_fault e Signup_save) of
                    Some err \<Rightarrow> (Response 500 (msg ''Server error''), st, [ConsoleError [err]])
                  | None \<Rightarrow>
                      (Response 200 (msg ''Signup successful! Your account is pending admin approval. You will receive an email when approved.''),
                       st\<lparr>users := users st @
                          [\<lparr>user_id = new_id e,
                            user_email = sb_email body,
                            user_password = bcrypt_hash e (sb_password body),
                            user_name = sb_name body,
                            user_graduationYear = sb_graduationYear body,
                            user_bio = None,
                            user_location = None,
                            user_profilePic = None,
                            user_role = ''alumni'',
                            user_isApproved = False\<rparr>]\<rparr>,
                       []))))"

record login_body =
  lb_email :: string
  lb_password :: string

text \<open>\<open>POST /api/auth/login\<close>.\<close>

definition login :: "env \<Rightarrow> store \<Rightarrow> login_body \<Rightarrow> result" where
  "login e st body =
     (case store_fault e Login_findOne of
        Some err \<Rightarrow> (Response 500 (msg ''Server error''), st, [ConsoleError [err]])
      | None \<Rightarrow>
          (case findOne_email (users st) (lb_email body) of
             None \<Rightarrow> (Response 400 (msg ''Invalid credentials''), st, [])
           | Some u \<Rightarrow>
               if \<not> user_isApproved u
               then (Response 403 (msg ''Your account is pending approval. Please check your email.''), st, [])
               else if \<not> bcrypt_compare e (lb_password body) (user_password u)
               then (Response 400 (msg ''Invalid credentials''), st, [])
               else
                 (Response 200 (JObj
                    [(''token'', jwt_sign [(''id'', JStr (user_id u))] (JWT_SECRET e) (now e)),
                     (''user'', JObj ([(''id'', JStr (user_id u)),
                                      (''email'', JStr (user_email u))]
                                     @ opt_field ''name'' JStr (user_name u)
                                     @ [(''role'', JStr (user_role u))]))]),
                  st, [])))"

section \<open>Route composition\<close>

text \<open>A route behind \<open>authMiddleware\<close>: the handler runs with \<open>req.user\<close>.\<close>

definition with_auth :: "env \<Rightarrow> store \<Rightarrow> jsval option \<Rightarrow> (jsval \<Rightarrow> result) \<Rightarrow> result" where
  "with_auth e st header handler =
     (case authMiddleware e header of
        Inl r \<Rightarrow> (r, st, [])
      | Inr req_user \<Rightarrow> handler req_user)"

text \<open>A handler behind \<open>adminMiddleware\<close>.\<close>

definition with_admin :: "env \<Rightarrow> store \<Rightarrow> jsval \<Rightarrow> result \<Rightarrow> result" where
  "with_admin e st req_user handler =
     (case adminMiddleware e st req_user of
        Some r \<Rightarrow> (r, st, [])
      | None \<Rightarrow> handler)"

section \<open>Alumni directory\<close>

record directory_query =
  dq_year :: "string option"
  dq_location :: "string option"

definition CastError :: "string \<Rightarrow> jsval" where
  "CastError v = JObj [(''name'', JStr ''CastError''), (''value'', JStr v)]"

text \<open>The filter object built from the query: an empty string is falsy and adds no
  condition. The year is cast to the schema's Number by the store layer.\<close>

definition directory_match :: "rat option \<Rightarrow> (string \<Rightarrow> bool) option \<Rightarrow> user \<Rightarrow> bool" where
  "directory_match yr loc u =
     (user_isApproved u
      \<and> (case yr of None \<Rightarrow> True | Some n \<Rightarrow> user_graduationYear u = Some n)
      \<and> (case loc of
           None \<Rightarrow> True
         | Some matches \<Rightarrow> (case user_location u of None \<Rightarrow> False | Some l \<Rightarrow> matches l)))"

text \<open>\<open>GET /api/directory\<close> (after \<open>authMiddleware\<close>). Nothing is caught here.\<close>

definition directory :: "env \<Rightarrow> store \<Rightarrow> directory_query \<Rightarrow> result" where
  "directory e st q =
     (case (case dq_year q of
              None \<Rightarrow> Inr None
            | Some y \<Rightarrow>
                if y = [] then Inr None
                else (case cast_number e y of
                        None \<Rightarrow> Inl (CastError y)
                      | Some n \<Rightarrow> Inr (Some n))) of
        Inl err \<Rightarrow> (Uncaught err, st, [])
      | Inr yr \<Rightarrow>
          (case (case dq_location q of
                   None \<Rightarrow> Inr None
                 | Some l \<Rightarrow>
                     if l = [] then Inr None
                     else (case regex_i e l of
                             None \<Rightarrow> Inl (JObj [(''name'', JStr ''MongoServerError''),
                                                 (''message'', JStr ''Regular expression is invalid'')])
                           | Some m \<Rightarrow> Inr (Some m))) of
             Inl err \<Rightarrow> (Uncaught err, st, [])
           | Inr loc \<Rightarrow>
               (case store_fault e Directory_find of
                  Some err \<Rightarrow> (Uncaught err, st, [])
                | None \<Rightarrow>
                    (Response 200
                       (JArr (map (\<lambda>u. select_minus [''password'', ''isApproved''] (user_json u))
                                  (filter (directory_match yr loc) (users st)))),
                     st, []))))"

definition route_directory :: "env \<Rightarrow> store \<Rightarrow> jsval option \<Rightarrow> directory_query \<Rightarrow> result" where
  "route_directory e st header q = with_auth e st header (\<lambda>req_user. directory e st q)"

section \<open>News\<close>

record news_body =
  nb_title :: "string option"
  nb_content :: "string option"
  nb_date :: "int option"

text \<open>\<open>POST /api/news\<close> (after both middlewares). Nothing is caught here.\<close>

definition news_post :: "env \<Rightarrow> store \<Rightarrow> jsval \<Rightarrow> news_body \<Rightarrow> result" where
  "news_post e st req_user body =
     (case store_fault e News_save of
        Some err \<Rightarrow> (Uncaught err, st, [])
      | None \<Rightarrow>
          (let newsItem = \<lparr>news_id = new_id e,
                           news_title = nb_title body,
                           news_content = nb_content body,
                           news_author = js_get req_user ''id'',
                           news_date = (case nb_date body of None \<Rightarrow> now e | Some d \<Rightarrow> d)\<rparr>
           in (Response 200 (news_json newsItem),
               st\<lparr>newsItems := newsItems st @ [newsItem]\<rparr>, [])))"

definition route_news_post :: "env \<Rightarrow> store \<Rightarrow> jsval option \<Rightarrow> news_body \<Rightarrow> result" where
  "route_news_post e st header body =
     with_auth e st header (\<lambda>req_user.
       with_admin e st req_user (news_post e st req_user body))"

section \<open>Forum replies\<close>

fun replace_first :: "('a \<Rightarrow> bool) \<Rightarrow> 'a \<Rightarrow> 'a list \<Rightarrow> 'a list" where
  "replace_first P y [] = []"
| "replace_first P y (x # xs) = (if P x then y # xs else x # replace_first P y xs)"

text \<open>
  \<open>POST /api/forums/:id/reply\<close> (after \<open>authMiddleware\<close>). \<open>findById\<close> gives \<open>null\<close>
  for an identifier with no thread, and \<open>thread.replies\<close> then throws a TypeError. Nothing
  is caught here.
\<close>

definition reply_post :: "env \<Rightarrow> store \<Rightarrow> jsval \<Rightarrow> string \<Rightarrow> string option \<Rightarrow> result" where
  "reply_post e st req_user param_id content =
     (case store_fault e Reply_findById of
        Some err \<Rightarrow> (Uncaught err, st, [])
      | None \<Rightarrow>
          (case find (\<lambda>t. thread_id t = param_id) (threads st) of
             None \<Rightarrow>
               (Uncaught (TypeError ''Cannot read properties of null (reading replies)''), st, [])
           | Some t \<Rightarrow>
               (case store_fault e Reply_save of
                  Some err \<Rightarrow> (Uncaught err, st, [])
                | None \<Rightarrow>
                    (let t' = t\<lparr>thread_replies := thread_replies t @
                                  [\<lparr>reply_content = content,
                                    reply_author = js_get req_user ''id'',
                                    reply_date = now e\<rparr>]\<rparr>
                     in (Response 200 (thread_json t'),
                         st\<lparr>threads := replace_first (\<lambda>x. thread_id x = param_id) t' (threads st)\<rparr>,
                         [])))))"

definition route_reply :: "env \<Rightarrow> store \<Rightarrow> jsval option \<Rightarrow> string \<Rightarrow> string option \<Rightarrow> result" where
  "route_reply e st header param_id content =
     with_auth e st header (\<lambda>req_user. reply_post e st req_user param_id content)"

section \<open>Donations\<close>

definition digit_char :: "nat \<Rightarrow> char" where
  "digit_char d = char_of (48 + d)"

function show_nat :: "nat \<Rightarrow> string" where
  "show_nat n = (if n < 10 then [digit_char n] else show_nat (n div 10) @ [digit_char (n mod 10)])"
  by pat_completeness auto
termination
  by (relation "measure id") auto

definition show_int :: "int \<Rightarrow> string" where
  "show_int i = (if i < 0 then CHR ''-'' # show_nat (nat (- i)) else show_nat (nat i))"

record payment_body =
  pb_amount :: "rat option"
  pb_currency :: "string option"

text \<open>The object handed to \<open>paystack.transaction.initialize\<close>.\<close>

definition initialize_args :: "env \<Rightarrow> jsval \<Rightarrow> rat \<Rightarrow> string \<Rightarrow> jsval" where
  "initialize_args e req_user amount validCurrency = JObj
     [(''amount'', JNum (Math_round (amount * 100))),
      (''email'', js_or (js_get req_user ''email'') (JStr ''alumni@kghs.com'')),
      (''currency'', JStr validCurrency),
      (''reference'', JStr (''kghs-don-'' @ show_int (now e) @ ''-'' @ random_suffix e)),
      (''callback_url'', JStr ''http://localhost:5174/donations/success''),
      (''metadata'', JObj [(''userId'', js_get req_user ''id''),
                           (''currency'', JStr validCurrency)])]"

text \<open>
  \<open>POST /api/donations/create-payment\<close> (after \<open>authMiddleware\<close>). An absent
  \<open>amount\<close> is falsy; an absent \<open>currency\<close> takes the default \<open>'NGN'\<close>. The \<open>catch\<close>
  branch logs the error and answers with its message in \<open>details\<close>.
\<close>

definition create_payment :: "env \<Rightarrow> store \<Rightarrow> jsval \<Rightarrow> payment_body \<Rightarrow> result" where
  "create_payment e st req_user body =
     (case pb_amount body of
        None \<Rightarrow> (Response 400 (msg ''Invalid amount''), st, [])
      | Some amount \<Rightarrow>
          if amount = 0 \<or> amount < 1 then (Response 400 (msg ''Invalid amount''), st, [])
          else
            (let currency = (case pb_currency body of None \<Rightarrow> ''NGN'' | Some c \<Rightarrow> c);
                 validCurrency = (if toUpperCase currency = ''USD'' then ''USD'' else ''NGN'');
                 args = initialize_args e req_user amount validCurrency
             in (case paystack_initialize e args of
                   Inr authorization_url \<Rightarrow>
                     (Response 200 (JObj [(''authorization_url'', JStr authorization_url)]),
                      st, [PaystackInitialize args])
                 | Inl err \<Rightarrow>
                     (Response 500 (JObj
                        [(''msg'', JStr ''Payment initialization failed''),
                         (''details'',
                            js_or (js_get (js_get (js_get err ''response'') ''data'') ''message'')
                              (js_or (js_get err ''message'') (JStr ''Unknown error'')))]),
                      st,
                      [PaystackInitialize args,
                       ConsoleError [JStr ''Paystack initialization error:'',
                          js_or (js_get (js_get err ''response'') ''data'')
                            (js_or (js_get err ''message'') err)]]))))"

definition route_create_payment :: "env \<Rightarrow> store \<Rightarrow> jsval option \<Rightarrow> payment_body \<Rightarrow> result" where
  "route_create_payment e st header body =
     with_auth e st header (\<lambda>req_user. create_payment e st req_user body)"

text \<open>\<open>GET /api/donations/verify/:reference\<close> (after \<open>authMiddleware\<close>).\<close>

definition verify :: "env \<Rightarrow> store \<Rightarrow> jsval \<Rightarrow> string \<Rightarrow> result" where
  "verify e st req_user reference =
     (case paystack_verify e reference of
        Inl err \<Rightarrow>
          (Response 500 (msg ''Verification failed''), st,
           [PaystackVerify reference,
            ConsoleError [JStr ''Paystack verification error:'',
               js_or (js_get (js_get err ''response'') ''data'') (js_get err ''message'')]])
      | Inr data \<Rightarrow>
          if vd_status data = ''success'' then
            (case store_fault e Verify_save of
               Some err \<Rightarrow>
                 (Response 500 (msg ''Verification failed''), st,
                  [PaystackVerify reference,
                   ConsoleError [JStr ''Paystack verification error:'',
                      js_or (js_get (js_get err ''response'') ''data'') (js_get err ''message'')]])
             | None \<Rightarrow>
                 (Response 200 (JObj [(''success'', JBool True),
                                      (''message'', JStr ''Donation successful!'')]),
                  st\<lparr>donations := donations st @
                     [\<lparr>donation_id = new_id e,
                       donation_amount = vd_amount data / 100,
                       donation_donor = js_get req_user ''id'',
                       donation_date = now e\<rparr>]\<rparr>,
                  [PaystackVerify reference]))
          else (Response 400 (JObj [(''success'', JBool False)]), st, [PaystackVerify reference]))"

definition route_verify :: "env \<Rightarrow> store \<Rightarrow> jsval option \<Rightarrow> string \<Rightarrow> result" where
  "route_verify e st header reference =
     with_auth e st header (\<lambda>req_user. verify e st req_user reference)"

text \<open>\<open>GET /api/donations\<close> (after both middlewares): newest first, donors resolved to
  their names. Nothing is caught here.\<close>

definition donations_get :: "env \<Rightarrow> store \<Rightarrow> result" where
  "donations_get e st =
     (case store_fault e Donations_find of
        Some err \<Rightarrow> (Uncaught err, st, [])
      | None \<Rightarrow>
          (Response 200
             (JArr (map (donation_json (users st))
                        (sort_key (\<lambda>d. - donation_date d) (donations st)))),
           st, []))"

definition route_donations_get :: "env \<Rightarrow> store \<Rightarrow> jsval option \<Rightarrow> result" where
  "route_donations_get e st header =
     with_auth e st header (\<lambda>req_user. with_admin e st req_user (donations_get e st))"

section \<open>Board minutes\<close>

text \<open>\<open>GET /api/board-minutes\<close> (after \<open>authMiddleware\<close>).\<close>

definition minutes_get :: "env \<Rightarrow> store \<Rightarrow> result" where
  "minutes_get e st =
     (case store_fault e Minutes_find of
        Some err \<Rightarrow> (Response 500 (msg ''Server error''), st, [ConsoleError [err]])
      | None \<Rightarrow>
          (Response 200
             (JArr (map minute_json (sort_key (\<lambda>m. - minute_date m) (boardMinutes st)))),
           st, []))"

text \<open>
  \<open>POST /api/board-minutes\<close> (after both middlewares and the upload). \<open>file\<close> is
  \<open>req.file.path\<close>, the URL the upload sink returned, \<open>None\<close> when no file came with the
  request.
\<close>

definition minutes_post :: "env \<Rightarrow> store \<Rightarrow> string option \<Rightarrow> string option \<Rightarrow> result" where
  "minutes_post e st file title =
     (case file of
        None \<Rightarrow> (Response 400 (msg ''PDF file is required''), st, [])
      | Some path \<Rightarrow>
          (case title of
             None \<Rightarrow> (Response 400 (msg ''Title is required''), st, [])
           | Some t \<Rightarrow>
               if t = [] then (Response 400 (msg ''Title is required''), st, [])
               else
                 (case store_fault e Minutes_save of
                    Some err \<Rightarrow> (Response 500 (msg ''Upload failed''), st, [ConsoleError [err]])
                  | None \<Rightarrow>
                      (let minute = \<lparr>minute_id = new_id e, minute_title = t,
                                      minute_fileUrl = path, minute_date = now e\<rparr>
                       in (Response 200 (minute_json minute),
                           st\<lparr>boardMinutes := boardMinutes st @ [minute]\<rparr>, [])))))"

definition route_minutes_post ::
  "env \<Rightarrow> store \<Rightarrow> jsval option \<Rightarrow> string option \<Rightarrow> string option \<Rightarrow> result" where
  "route_minutes_post e st header file title =
     with_auth e st header (\<lambda>req_user.
       with_admin e st req_user (minutes_post e st file title))"

section \<open>Administration\<close>

text \<open>\<open>GET /api/admin/users\<close> (after both middlewares). Nothing is caught here.\<close>

definition admin_users_get :: "env \<Rightarrow> store \<Rightarrow> result" where
  "admin_users_get e st =
     (case store_fault e AdminUsers_find of
        Some err \<Rightarrow> (Uncaught err, st, [])
      | None \<Rightarrow>
          (Response 200
             (JArr (map (\<lambda>u. select_minus [''password''] (user_json u)) (users st))),
           st, []))"

definition route_admin_users_get :: "env \<Rightarrow> store \<Rightarrow> jsval option \<Rightarrow> result" where
  "route_admin_users_get e st header =
     with_auth e st header (\<lambda>req_user. with_admin e st req_user (admin_users_get e st))"

text \<open>The approval mail. The subject starts with the four bytes of an emoji; the markup
  of the body is given without its style attributes and line breaks.\<close>

definition approval_subject :: string where
  "approval_subject =
     [CHR 0xF0, CHR 0x9F, CHR 0x8E, CHR 0x89] @ '' Your KGHS Alumni Account Has Been Approved!''"

definition approval_html :: "string option \<Rightarrow> string" where
  "approval_html name =
     ''<div><h1>Welcome to the Family!</h1><p>Dear ''
     @ (case name of None \<Rightarrow> ''undefined'' | Some n \<Rightarrow> n)
     @ '',</p><p>Congratulations! Your KGHS Alumni Network account has been <strong>approved</strong>.</p>''
     @ ''<p>You can now log in and connect with fellow graduates, share memories, and stay updated on events.</p>''
     @ ''<div><a href='' @ [CHR 0x22] @ ''https://kghs-frontend.onrender.com/login'' @ [CHR 0x22] @ ''>Log In Now</a></div>''
     @ ''<p>Warm regards,<br><strong>The KGHS Alumni Team</strong></p></div>''"

definition mailOptions :: "env \<Rightarrow> user \<Rightarrow> jsval" where
  "mailOptions e u = JObj
     [(''from'', JStr (EMAIL_USER e)),
      (''to'', JStr (user_email u)),
      (''subject'', JStr approval_subject),
      (''html'', JStr (approval_html (user_name u)))]"

text \<open>
  \<open>PUT /api/admin/users/:id\<close> (after both middlewares), for a body with a boolean
  \<open>isApproved\<close>. \<open>findByIdAndUpdate\<close> writes the flag and returns the updated document,
  \<open>null\<close> when there is none; reading \<open>user.email\<close> of \<open>null\<close> throws inside the
  \<open>try\<close>. The mail is sent after the write.
\<close>

definition approve :: "env \<Rightarrow> store \<Rightarrow> string \<Rightarrow> bool \<Rightarrow> result" where
  "approve e st param_id isApproved =
     (case store_fault e Approve_findByIdAndUpdate of
        Some err \<Rightarrow> (Response 500 (msg ''Server error''), st, [ConsoleError [err]])
      | None \<Rightarrow>
          (case find (\<lambda>u. user_id u = param_id) (users st) of
             None \<Rightarrow>
               if isApproved
               then (Response 500 (msg ''Server error''), st,
                     [ConsoleError [TypeError ''Cannot read properties of null (reading email)'']])
               else (Response 200 JNull, st, [])
           | Some u0 \<Rightarrow>
               (let u = u0\<lparr>user_isApproved := isApproved\<rparr>;
                    st' = st\<lparr>users := replace_first (\<lambda>x. user_id x = param_id) u (users st)\<rparr>
                in if isApproved
                   then (case sendMail e (mailOptions e u) of
                           Some err \<Rightarrow>
                             (Response 500 (msg ''Server error''), st',
                              [SendMail (mailOptions e u), ConsoleError [err]])
                         | None \<Rightarrow>
                             (Response 200 (select_minus [''password''] (user_json u)), st',
                              [SendMail (mailOptions e u)]))
                   else (Response 200 (select_minus [''password''] (user_json u)), st', []))))"

definition route_approve :: "env \<Rightarrow> store \<Rightarrow> jsval option \<Rightarrow> string \<Rightarrow> bool \<Rightarrow> result" where
  "route_approve e st header param_id isApproved =
     with_auth e st header (\<lambda>req_user.
       with_admin e st req_user (approve e st param_id isApproved))"

section \<open>Predicates of the specification\<close>

text \<open>The stored record of the identity carries the admin role.\<close>

definition is_admin :: "store \<Rightarrow> jsval \<Rightarrow> bool" where
  "is_admin st req_user =
     (case findById_user (users st) (js_get req_user ''id'') of
        None \<Rightarrow> False
      | Some u \<Rightarrow> user_role u = ''admin'')"

fun is_ConsoleError :: "effect \<Rightarrow> bool" where
  "is_ConsoleError (ConsoleError a) = True"
| "is_ConsoleError x = False"

text \<open>
  The policy "catch at the handler boundary, log, return generic 500": the handler always
  answers, and an answer with status 500 carries one fixed message and nothing else, with
  the error written to the server log.
\<close>

definition generic_msgs :: "jsval list" where
  "generic_msgs = [msg ''Server error'', msg ''Verification failed'', msg ''Upload failed'']"

definition generic_failure :: "result \<Rightarrow> bool" where
  "generic_failure r =
     (case fst r of
        Uncaught err \<Rightarrow> False
      | Response s b \<Rightarrow>
          (s = 500 \<longrightarrow> b \<in> set generic_msgs \<and> list_ex is_ConsoleError (snd (snd r))))"

text \<open>\<open>pat\<close> occurs in \<open>s\<close> as a substring, letter case ignored.\<close>

fun prefix_ci :: "string \<Rightarrow> string \<Rightarrow> bool" where
  "prefix_ci [] s = True"
| "prefix_ci (p # ps) [] = False"
| "prefix_ci (p # ps) (c # cs) = (toUpperCase_char p = toUpperCase_char c \<and> prefix_ci ps cs)"

fun contains_ci :: "string \<Rightarrow> string \<Rightarrow> bool" where
  "contains_ci pat [] = prefix_ci pat []"
| "contains_ci pat (c # cs) = (prefix_ci pat (c # cs) \<or> contains_ci pat cs)"

section \<open>A concrete environment and store\<close>

text \<open>
  The store's \<open>$regex\<close> with option \<open>i\<close>, for patterns whose only metacharacter is the dot:
  a dot stands for any character but a line feed, every other character for itself in
  either case, and the pattern may match anywhere in the text.
\<close>

fun rx_here :: "string \<Rightarrow> string \<Rightarrow> bool" where
  "rx_here [] s = True"
| "rx_here (p # ps) [] = False"
| "rx_here (p # ps) (c # cs) =
     ((if p = CHR ''.'' then c \<noteq> CHR 0x0A else toUpperCase_char p = toUpperCase_char c)
      \<and> rx_here ps cs)"

fun rx_search :: "string \<Rightarrow> string \<Rightarrow> bool" where
  "rx_search pat [] = rx_here pat []"
| "rx_search pat (c # cs) = (rx_here pat (c # cs) \<or> rx_search pat cs)"

text \<open>The cast of a string of decimal digits to a number.\<close>

fun parse_digits :: "string \<Rightarrow> nat \<Rightarrow> nat option" where
  "parse_digits [] acc = Some acc"
| "parse_digits (c # cs) acc =
     (if c \<in> set ''0123456789''
      then parse_digits cs (10 * acc + (of_char c - 48))
      else None)"

definition demo_env :: env where
  "demo_env =
     \<lparr>JWT_SECRET = ''s3cret'',
      EMAIL_USER = ''noreply@kghs.com'',
      now = 1700000000000,
      currentYear = 2023,
      random_suffix = ''k3x9q'',
      new_id = ''id100'',
      store_fault = (\<lambda>s. None),
      bcrypt_hash = (\<lambda>p. ''$2a$10$'' @ p),
      bcrypt_compare = (\<lambda>p h. h = ''$2a$10$'' @ p),
      paystack_initialize = (\<lambda>args. Inr ''https://checkout.paystack.com/abc''),
      paystack_verify = (\<lambda>r. Inr \<lparr>vd_status = ''success'', vd_amount = 500000\<rparr>),
      sendMail = (\<lambda>m. None),
      regex_i = (\<lambda>p. Some (rx_search p)),
      cast_number = (\<lambda>s. if s = [] then None else map_option of_nat (parse_digits s 0))\<rparr>"

definition alice :: user where
  "alice =
     \<lparr>user_id = ''id1'', user_email = ''alice@kghs.com'', user_password = ''$2a$10$alicepw'',
      user_name = Some ''Alice'', user_graduationYear = Some 1999, user_bio = None,
      user_location = Some ''Accra'', user_profilePic = None,
      user_role = ''admin'', user_isApproved = True\<rparr>"

definition bob :: user where
  "bob =
     \<lparr>user_id = ''id2'', user_email = ''bob@kghs.com'', user_password = ''$2a$10$bobpw'',
      user_name = Some ''Bob'', user_graduationYear = Some 2015, user_bio = None,
      user_location = None, user_profilePic = None,
      user_role = ''alumni'', user_isApproved = False\<rparr>"

definition carol :: user where
  "carol =
     \<lparr>user_id = ''id3'', user_email = ''carol@kghs.com'', user_password = ''$2a$10$carolpw'',
      user_name = Some ''Carol'', user_graduationYear = Some 2010, user_bio = None,
      user_location = Some ''Lagos'', user_profilePic = None,
      user_role = ''alumni'', user_isApproved = True\<rparr>"

definition demo_thread :: thread where
  "demo_thread =
     \<lparr>thread_id = ''t1'', thread_title = Some ''Reunion'', thread_content = Some ''When?'',
      thread_author = JStr ''id3'', thread_date = 1690000000000, thread_replies = []\<rparr>"

definition demo_store :: store where
  "demo_store =
     \<lparr>users = [alice, bob, carol], newsItems = [], threads = [demo_thread],
      donations = [], boardMinutes = []\<rparr>"

text \<open>The token login issues to Carol, and the payload a later request decodes from it.\<close>

definition carol_token :: jsval where
  "carol_token = jwt_sign [(''id'', JStr ''id3'')] ''s3cret'' 1700000000000"

definition failure :: jsval where
  "failure = JObj [(''message'', JStr ''connect ECONNREFUSED 10.0.0.7:443'')]"

section \<open>Auxiliary facts\<close>

lemma find_replace_first:
  "find P xs = Some x \<Longrightarrow> P y \<Longrightarrow> find P (replace_first P y xs) = Some y"
  by (induction xs) (auto split: if_splits)

lemma generic_msgs_simps:
  "msg ''Server error'' \<in> set generic_msgs"
  "msg ''Verification failed'' \<in> set generic_msgs"
  "msg ''Upload failed'' \<in> set generic_msgs"
  by (simp_all add: generic_msgs_def)

lemma signup_generic_failure: "generic_failure (signup e st b)"
  by (simp add: generic_failure_def signup_def generic_msgs_simps
      split: option.splits)

lemma login_generic_failure: "generic_failure (login e st b)"
  by (simp add: generic_failure_def login_def generic_msgs_simps
      split: option.splits)

lemma verify_generic_failure: "generic_failure (verify e st u r)"
  by (simp add: generic_failure_def verify_def generic_msgs_simps
      split: option.splits sum.splits)

lemma minutes_get_generic_failure: "generic_failure (minutes_get e st)"
  by (simp add: generic_failure_def minutes_get_def generic_msgs_simps
      split: option.splits)

lemma minutes_post_generic_failure: "generic_failure (minutes_post e st f t)"
  by (simp add: generic_failure_def minutes_post_def generic_msgs_simps Let_def
      split: option.splits)

lemma approve_generic_failure: "generic_failure (approve e st i a)"
  by (simp add: generic_failure_def approve_def generic_msgs_simps Let_def
      split: option.splits)

lemma create_payment_failure:
  assumes "pb_amount b = Some a" "1 \<le> a"
    and "paystack_initialize e (initialize_args e u a
           (if toUpperCase (case pb_currency b of None \<Rightarrow> ''NGN'' | Some c \<Rightarrow> c) = ''USD''
            then ''USD'' else ''NGN'')) = Inl err"
  shows "fst (create_payment e st u b) =
     Response 500 (JObj
       [(''msg'', JStr ''Payment initialization failed''),
        (''details'',
           js_or (js_get (js_get (js_get err ''response'') ''data'') ''message'')
             (js_or (js_get err ''message'') (JStr ''Unknown error'')))])"
  using assms by (auto simp add: create_payment_def Let_def)

lemma signup_save_failure:
  assumes "store_fault e Signup_findOne = None"
    and "findOne_email (users st) (sb_email sb) = None"
    and "\<forall>y. sb_graduationYear sb = Some y \<longrightarrow> 1950 \<le> y \<and> y \<le> of_int (currentYear e + 10)"
  shows "(sb_email sb = [] \<longrightarrow>
            signup e st sb = (Response 500 (msg ''Server error''), st,
              [ConsoleError [JObj [(''name'', JStr ''ValidationError''),
                                   (''message'', JStr ''User validation failed'')]]]))
    \<and> (sb_email sb \<noteq> [] \<and> store_fault e Signup_save = Some err \<longrightarrow>
            signup e st sb = (Response 500 (msg ''Server error''), st, [ConsoleError [err]]))"
  using assms by (auto simp add: signup_def split: option.splits)

lemma create_payment_failure_full:
  assumes "pb_amount b = Some a" "1 \<le> a"
    and "paystack_initialize e (initialize_args e u a
           (if toUpperCase (case pb_currency b of None \<Rightarrow> ''NGN'' | Some c \<Rightarrow> c) = ''USD''
            then ''USD'' else ''NGN'')) = Inl err"
  shows "create_payment e st u b =
     (Response 500 (JObj
       [(''msg'', JStr ''Payment initialization failed''),
        (''details'',
           js_or (js_get (js_get (js_get err ''response'') ''data'') ''message'')
             (js_or (js_get err ''message'') (JStr ''Unknown error'')))]),
      st,
      [PaystackInitialize (initialize_args e u a
           (if toUpperCase (case pb_currency b of None \<Rightarrow> ''NGN'' | Some c \<Rightarrow> c) = ''USD''
            then ''USD'' else ''NGN'')),
       ConsoleError [JStr ''Paystack initialization error:'',
          js_or (js_get (js_get err ''response'') ''data'')
            (js_or (js_get err ''message'') err)]])"
  using assms by (auto simp add: create_payment_def Let_def)

lemma Math_round_10000: "Math_round 10000 = 10000"
proof -
  have "\<lfloor>(10000::rat) + 1 / 2\<rfloor> = 10000" by linarith
  then show ?thesis by (simp add: Math_round_def)
qed

lemma toUpperCase_usd: "toUpperCase ''usd'' = ''USD''"
  by (simp add: toUpperCase_def toUpperCase_char_def upper_table_def)

lemma user_json_hidden:
  "\<not> has_key (select_minus [''password'', ''isApproved''] (user_json u)) ''password''"
  "\<not> has_key (select_minus [''password'', ''isApproved''] (user_json u)) ''isApproved''"
  by (auto simp add: user_json_def)

lemma directory_body:
  assumes "fst (directory e st q) = Response s body"
  shows "\<exists>yr loc. body = JArr (map (\<lambda>u. select_minus [''password'', ''isApproved''] (user_json u))
                          (filter (directory_match yr loc) (users st)))
     \<and> (\<forall>y. dq_year q = Some y \<and> y \<noteq> [] \<longrightarrow> yr \<noteq> None \<and> cast_number e y = yr)
     \<and> (\<forall>l. dq_location q = Some l \<and> l \<noteq> [] \<longrightarrow> loc \<noteq> None \<and> regex_i e l = loc)"
  using assms
  by (auto simp add: directory_def split: option.splits if_splits sum.splits)

lemma demo_directory:
  "fst (directory demo_env demo_store \<lparr>dq_year = Some ''2010'', dq_location = Some ''.''\<rparr>)
     = Response 200 (JArr [select_minus [''password'', ''isApproved''] (user_json carol)])"
  by (simp add: directory_def demo_env_def demo_store_def directory_match_def
      alice_def bob_def carol_def toUpperCase_char_def upper_table_def)

lemma rx_here_plain: "CHR ''.'' \<notin> set p \<Longrightarrow> rx_here p s = prefix_ci p s"
  by (induction p s rule: rx_here.induct) auto

lemma rx_search_plain: "CHR ''.'' \<notin> set p \<Longrightarrow> rx_search p s = contains_ci p s"
  by (induction s) (auto simp add: rx_here_plain)

lemma adminMiddleware_non_admin:
  "\<not> is_admin st req_user \<Longrightarrow>
     adminMiddleware e st req_user =
       Some (case store_fault e AdminMw_findById of
               None \<Rightarrow> Response 403 (msg ''Admin access required'')
             | Some err \<Rightarrow> Uncaught err)"
  by (simp add: adminMiddleware_def is_admin_def split: option.splits)

lemma with_admin_non_admin:
  "\<not> is_admin st req_user \<Longrightarrow>
     with_admin e st req_user h =
       ((case store_fault e AdminMw_findById of
           None \<Rightarrow> Response 403 (msg ''Admin access required'')
         | Some err \<Rightarrow> Uncaught err), st, [])"
  by (simp add: with_admin_def adminMiddleware_non_admin)

lemma carol_auth:
  "authMiddleware demo_env (Some carol_token)
     = Inr (JObj [(''id'', JStr ''id3''), (''iat'', JNum 1700000000), (''exp'', JNum 1700604800)])"
  by (simp add: authMiddleware_def carol_token_def jwt_sign_def demo_env_def)





section \<open>Login: wrong password and the approval gate\<close>

text \<open>
  Claim C1, as amended. A login with an existing email and a wrong password, the store
  read succeeding, is answered with the invalid-credentials error when the user is
  approved. When the user is not approved the answer is the pending-approval error: the
  handler tests \<open>isApproved\<close> before it compares the password.
\<close>

theorem login_wrong_password:
  assumes "store_fault e Login_findOne = None"
    and "findOne_email (users st) (lb_email body) = Some u"
    and "\<not> bcrypt_compare e (lb_password body) (user_password u)"
  shows "login e st body =
    ((if user_isApproved u then Response 400 (msg ''Invalid credentials'')
      else Response 403 (msg ''Your account is pending approval. Please check your email.'')),
     st, [])"
  using assms by (simp add: login_def)

text \<open>
  Claim C1 as stated fails for Bob, who is stored, not approved, and logs in with a wrong
  password: the answer is 403 pending-approval, not 400 invalid-credentials.
\<close>

theorem login_wrong_password_counterexample:
  "findOne_email (users demo_store) ''bob@kghs.com'' = Some bob
   \<and> \<not> user_isApproved bob
   \<and> \<not> bcrypt_compare demo_env ''wrong'' (user_password bob)
   \<and> login demo_env demo_store \<lparr>lb_email = ''bob@kghs.com'', lb_password = ''wrong''\<rparr>
       = (Response 403 (msg ''Your account is pending approval. Please check your email.''),
          demo_store, [])
   \<and> fst (login demo_env demo_store \<lparr>lb_email = ''bob@kghs.com'', lb_password = ''wrong''\<rparr>)
       \<noteq> Response 400 (msg ''Invalid credentials'')"
  by (simp add: login_def findOne_email_def demo_store_def demo_env_def alice_def bob_def
      carol_def msg_def)

text \<open>
  The amended claim at Alice, who is approved and gives a wrong password.
\<close>

theorem login_wrong_password_witness:
  "login demo_env demo_store \<lparr>lb_email = ''alice@kghs.com'', lb_password = ''wrong''\<rparr>
     = (Response 400 (msg ''Invalid credentials''), demo_store, [])"
  using login_wrong_password [of demo_env demo_store
      "\<lparr>lb_email = ''alice@kghs.com'', lb_password = ''wrong''\<rparr>" alice]
  by (simp add: findOne_email_def demo_store_def demo_env_def alice_def)

section \<open>Approval: a failing mail after the write\<close>

text \<open>
  Claim C2. When an approval update sets \<open>isApproved\<close> to true for a stored user and
  the mail transport then throws, the answer is the 500 "Server error" that a store
  failure gives as well, and the store keeps the user with \<open>isApproved\<close> true.
\<close>

theorem approve_mail_failure:
  assumes "store_fault e Approve_findByIdAndUpdate = None"
    and "find (\<lambda>u. user_id u = i) (users st) = Some u0"
    and "sendMail e (mailOptions e (u0\<lparr>user_isApproved := True\<rparr>)) = Some err"
  shows "fst (approve e st i True) = Response 500 (msg ''Server error'')
    \<and> (\<forall>e' err'. store_fault e' Approve_findByIdAndUpdate = Some err'
          \<longrightarrow> fst (approve e' st i True) = fst (approve e st i True))
    \<and> find (\<lambda>u. user_id u = i) (users (fst (snd (approve e st i True))))
         = Some (u0\<lparr>user_isApproved := True\<rparr>)"
proof -
  have same_id: "user_id (u0\<lparr>user_isApproved := True\<rparr>) = i"
    using assms(2) by (auto dest: find_Some_iff [THEN iffD1])
  have res: "approve e st i True =
      (Response 500 (msg ''Server error''),
       st\<lparr>users := replace_first (\<lambda>x. user_id x = i) (u0\<lparr>user_isApproved := True\<rparr>) (users st)\<rparr>,
       [SendMail (mailOptions e (u0\<lparr>user_isApproved := True\<rparr>)), ConsoleError [err]])"
    using assms by (simp add: approve_def Let_def)
  have other: "\<And>e' err'. store_fault e' Approve_findByIdAndUpdate = Some err'
      \<Longrightarrow> fst (approve e' st i True) = Response 500 (msg ''Server error'')"
    by (simp add: approve_def)
  have kept: "find (\<lambda>u. user_id u = i)
      (replace_first (\<lambda>x. user_id x = i) (u0\<lparr>user_isApproved := True\<rparr>) (users st))
      = Some (u0\<lparr>user_isApproved := True\<rparr>)"
    using assms(2) same_id by (rule find_replace_first)
  show ?thesis using res other kept by simp
qed

text \<open>
  The approval of Bob with a mail transport that throws.
\<close>

theorem approve_mail_failure_witness:
  "fst (approve (demo_env\<lparr>sendMail := (\<lambda>m. Some failure)\<rparr>) demo_store ''id2'' True)
     = Response 500 (msg ''Server error'')
   \<and> fst (approve (demo_env\<lparr>store_fault := (\<lambda>s. Some failure)\<rparr>) demo_store ''id2'' True)
     = fst (approve (demo_env\<lparr>sendMail := (\<lambda>m. Some failure)\<rparr>) demo_store ''id2'' True)
   \<and> find (\<lambda>u. user_id u = ''id2'')
        (users (fst (snd (approve (demo_env\<lparr>sendMail := (\<lambda>m. Some failure)\<rparr>) demo_store ''id2'' True))))
     = Some (bob\<lparr>user_isApproved := True\<rparr>)"
proof -
  let ?e = "demo_env\<lparr>sendMail := (\<lambda>m. Some failure)\<rparr>"
  have h1: "store_fault ?e Approve_findByIdAndUpdate = None"
    by (simp add: demo_env_def)
  have h2: "find (\<lambda>u. user_id u = ''id2'') (users demo_store) = Some bob"
    by (simp add: demo_store_def alice_def bob_def)
  have h3: "sendMail ?e (mailOptions ?e (bob\<lparr>user_isApproved := True\<rparr>)) = Some failure"
    by simp
  have h4: "store_fault (demo_env\<lparr>store_fault := (\<lambda>s. Some failure)\<rparr>) Approve_findByIdAndUpdate
      = Some failure"
    by simp
  from approve_mail_failure [OF h1 h2 h3] h4 show ?thesis by blast
qed

section \<open>Failures caught at the handler boundary\<close>

text \<open>
  Claim C3, as amended. Signup, login, payment verification, the two board-minutes
  handlers and the approval update always answer, and whenever they answer with status
  500 the body is one fixed message and the error is in the server log. Every failure
  thrown inside their \<open>try\<close> blocks leads to exactly that answer, with the error logged:
  a failing store read or write (signup lookup and save, a user the schema rejects, login
  lookup, donation save, board-minutes read and save, approval update), a throwing
  gateway verification, a throwing mail transport, and the \<open>null\<close> user of an approval
  for an unknown identifier. The 500 of create-payment is different: besides its fixed
  message it carries a \<open>details\<close> field with the message of the gateway error, which is
  logged as well. Handlers without a \<open>try\<close> block are not covered.
\<close>

theorem caught_failures:
  "generic_failure (signup e st sb)
   \<and> generic_failure (login e st lb)
   \<and> generic_failure (verify e st u r)
   \<and> generic_failure (minutes_get e st)
   \<and> generic_failure (minutes_post e st f t)
   \<and> generic_failure (approve e st i a)
   \<and> (store_fault e Login_findOne = Some err
        \<longrightarrow> login e st lb = (Response 500 (msg ''Server error''), st, [ConsoleError [err]]))
   \<and> (store_fault e Signup_findOne = Some err
        \<longrightarrow> signup e st sb = (Response 500 (msg ''Server error''), st, [ConsoleError [err]]))
   \<and> (store_fault e Minutes_find = Some err
        \<longrightarrow> minutes_get e st = (Response 500 (msg ''Server error''), st, [ConsoleError [err]]))
   \<and> (store_fault e Approve_findByIdAndUpdate = Some err
        \<longrightarrow> approve e st i a = (Response 500 (msg ''Server error''), st, [ConsoleError [err]]))
   \<and> (paystack_verify e r = Inl err
        \<longrightarrow> fst (verify e st u r) = Response 500 (msg ''Verification failed'')
            \<and> fst (snd (verify e st u r)) = st)
   \<and> (pb_amount pb = Some amount \<and> 1 \<le> amount
        \<and> paystack_initialize e (initialize_args e u amount
            (if toUpperCase (case pb_currency pb of None \<Rightarrow> ''NGN'' | Some c \<Rightarrow> c) = ''USD''
             then ''USD'' else ''NGN'')) = Inl err
        \<longrightarrow> fst (create_payment e st u pb) =
            Response 500 (JObj
              [(''msg'', JStr ''Payment initialization failed''),
               (''details'',
                  js_or (js_get (js_get (js_get err ''response'') ''data'') ''message'')
                    (js_or (js_get err ''message'') (JStr ''Unknown error'')))]))
   \<and> (store_fault e Signup_findOne = None
        \<and> findOne_email (users st) (sb_email sb) = None
        \<and> (\<forall>y. sb_graduationYear sb = Some y \<longrightarrow> 1950 \<le> y \<and> y \<le> of_int (currentYear e + 10))
        \<longrightarrow> (sb_email sb = [] \<longrightarrow>
               signup e st sb = (Response 500 (msg ''Server error''), st,
                 [ConsoleError [JObj [(''name'', JStr ''ValidationError''),
                                      (''message'', JStr ''User validation failed'')]]]))
            \<and> (sb_email sb \<noteq> [] \<and> store_fault e Signup_save = Some err \<longrightarrow>
               signup e st sb = (Response 500 (msg ''Server error''), st, [ConsoleError [err]])))
   \<and> (paystack_verify e r = Inl err \<longrightarrow>
         verify e st u r = (Response 500 (msg ''Verification failed''), st,
           [PaystackVerify r,
            ConsoleError [JStr ''Paystack verification error:'',
              js_or (js_get (js_get err ''response'') ''data'') (js_get err ''message'')]]))
   \<and> (paystack_verify e r = Inr d \<and> vd_status d = ''success''
        \<and> store_fault e Verify_save = Some err \<longrightarrow>
         verify e st u r = (Response 500 (msg ''Verification failed''), st,
           [PaystackVerify r,
            ConsoleError [JStr ''Paystack verification error:'',
              js_or (js_get (js_get err ''response'') ''data'') (js_get err ''message'')]]))
   \<and> (title \<noteq> [] \<and> store_fault e Minutes_save = Some err \<longrightarrow>
         minutes_post e st (Some path) (Some title)
           = (Response 500 (msg ''Upload failed''), st, [ConsoleError [err]]))
   \<and> (store_fault e Approve_findByIdAndUpdate = None
        \<and> find (\<lambda>x. user_id x = i) (users st) = None \<longrightarrow>
         approve e st i True = (Response 500 (msg ''Server error''), st,
           [ConsoleError [TypeError ''Cannot read properties of null (reading email)'']]))
   \<and> (store_fault e Approve_findByIdAndUpdate = None
        \<and> find (\<lambda>x. user_id x = i) (users st) = Some u0
        \<and> sendMail e (mailOptions e (u0\<lparr>user_isApproved := True\<rparr>)) = Some err \<longrightarrow>
         approve e st i True = (Response 500 (msg ''Server error''),
           st\<lparr>users := replace_first (\<lambda>x. user_id x = i) (u0\<lparr>user_isApproved := True\<rparr>) (users st)\<rparr>,
           [SendMail (mailOptions e (u0\<lparr>user_isApproved := True\<rparr>)), ConsoleError [err]]))
   \<and> (pb_amount pb = Some amount \<and> 1 \<le> amount
        \<and> paystack_initialize e (initialize_args e u amount
            (if toUpperCase (case pb_currency pb of None \<Rightarrow> ''NGN'' | Some c \<Rightarrow> c) = ''USD''
             then ''USD'' else ''NGN'')) = Inl err
        \<longrightarrow> create_payment e st u pb =
            (Response 500 (JObj
              [(''msg'', JStr ''Payment initialization failed''),
               (''details'',
                  js_or (js_get (js_get (js_get err ''response'') ''data'') ''message'')
                    (js_or (js_get err ''message'') (JStr ''Unknown error'')))]),
             st,
             [PaystackInitialize (initialize_args e u amount
                (if toUpperCase (case pb_currency pb of None \<Rightarrow> ''NGN'' | Some c \<Rightarrow> c) = ''USD''
                 then ''USD'' else ''NGN'')),
              ConsoleError [JStr ''Paystack initialization error:'',
                 js_or (js_get (js_get err ''response'') ''data'')
                   (js_or (js_get err ''message'') err)]]))"
proof (intro conjI)
  show "store_fault e Login_findOne = Some err
        \<longrightarrow> login e st lb = (Response 500 (msg ''Server error''), st, [ConsoleError [err]])"
    by (simp add: login_def)
  show "store_fault e Signup_findOne = Some err
        \<longrightarrow> signup e st sb = (Response 500 (msg ''Server error''), st, [ConsoleError [err]])"
    by (simp add: signup_def)
  show "store_fault e Minutes_find = Some err
        \<longrightarrow> minutes_get e st = (Response 500 (msg ''Server error''), st, [ConsoleError [err]])"
    by (simp add: minutes_get_def)
  show "store_fault e Approve_findByIdAndUpdate = Some err
        \<longrightarrow> approve e st i a = (Response 500 (msg ''Server error''), st, [ConsoleError [err]])"
    by (simp add: approve_def)
  show "paystack_verify e r = Inl err
        \<longrightarrow> fst (verify e st u r) = Response 500 (msg ''Verification failed'')
            \<and> fst (snd (verify e st u r)) = st"
    by (simp add: verify_def)
  show "pb_amount pb = Some amount \<and> 1 \<le> amount
        \<and> paystack_initialize e (initialize_args e u amount
            (if toUpperCase (case pb_currency pb of None \<Rightarrow> ''NGN'' | Some c \<Rightarrow> c) = ''USD''
             then ''USD'' else ''NGN'')) = Inl err
        \<longrightarrow> fst (create_payment e st u pb) =
            Response 500 (JObj
              [(''msg'', JStr ''Payment initialization failed''),
               (''details'',
                  js_or (js_get (js_get (js_get err ''response'') ''data'') ''message'')
                    (js_or (js_get err ''message'') (JStr ''Unknown error'')))])"
    using create_payment_failure [of pb amount e u err st] by blast
  show "store_fault e Signup_findOne = None
        \<and> findOne_email (users st) (sb_email sb) = None
        \<and> (\<forall>y. sb_graduationYear sb = Some y \<longrightarrow> 1950 \<le> y \<and> y \<le> of_int (currentYear e + 10))
        \<longrightarrow> (sb_email sb = [] \<longrightarrow>
               signup e st sb = (Response 500 (msg ''Server error''), st,
                 [ConsoleError [JObj [(''name'', JStr ''ValidationError''),
                                      (''message'', JStr ''User validation failed'')]]]))
            \<and> (sb_email sb \<noteq> [] \<and> store_fault e Signup_save = Some err \<longrightarrow>
               signup e st sb = (Response 500 (msg ''Server error''), st, [ConsoleError [err]]))"
    using signup_save_failure [of e st sb err] by blast
  show "paystack_verify e r = Inl err \<longrightarrow>
         verify e st u r = (Response 500 (msg ''Verification failed''), st,
           [PaystackVerify r,
            ConsoleError [JStr ''Paystack verification error:'',
              js_or (js_get (js_get err ''response'') ''data'') (js_get err ''message'')]])"
    by (simp add: verify_def)
  show "paystack_verify e r = Inr d \<and> vd_status d = ''success''
        \<and> store_fault e Verify_save = Some err \<longrightarrow>
         verify e st u r = (Response 500 (msg ''Verification failed''), st,
           [PaystackVerify r,
            ConsoleError [JStr ''Paystack verification error:'',
              js_or (js_get (js_get err ''response'') ''data'') (js_get err ''message'')]])"
    by (simp add: verify_def)
  show "title \<noteq> [] \<and> store_fault e Minutes_save = Some err \<longrightarrow>
         minutes_post e st (Some path) (Some title)
           = (Response 500 (msg ''Upload failed''), st, [ConsoleError [err]])"
    by (simp add: minutes_post_def)
  show "store_fault e Approve_findByIdAndUpdate = None
        \<and> find (\<lambda>x. user_id x = i) (users st) = None \<longrightarrow>
         approve e st i True = (Response 500 (msg ''Server error''), st,
           [ConsoleError [TypeError ''Cannot read properties of null (reading email)'']])"
    by (simp add: approve_def)
  show "store_fault e Approve_findByIdAndUpdate = None
        \<and> find (\<lambda>x. user_id x = i) (users st) = Some u0
        \<and> sendMail e (mailOptions e (u0\<lparr>user_isApproved := True\<rparr>)) = Some err \<longrightarrow>
         approve e st i True = (Response 500 (msg ''Server error''),
           st\<lparr>users := replace_first (\<lambda>x. user_id x = i) (u0\<lparr>user_isApproved := True\<rparr>) (users st)\<rparr>,
           [SendMail (mailOptions e (u0\<lparr>user_isApproved := True\<rparr>)), ConsoleError [err]])"
    by (simp add: approve_def Let_def)
  show "pb_amount pb = Some amount \<and> 1 \<le> amount
        \<and> paystack_initialize e (initialize_args e u amount
            (if toUpperCase (case pb_currency pb of None \<Rightarrow> ''NGN'' | Some c \<Rightarrow> c) = ''USD''
             then ''USD'' else ''NGN'')) = Inl err
        \<longrightarrow> create_payment e st u pb =
            (Response 500 (JObj
              [(''msg'', JStr ''Payment initialization failed''),
               (''details'',
                  js_or (js_get (js_get (js_get err ''response'') ''data'') ''message'')
                    (js_or (js_get err ''message'') (JStr ''Unknown error'')))]),
             st,
             [PaystackInitialize (initialize_args e u amount
                (if toUpperCase (case pb_currency pb of None \<Rightarrow> ''NGN'' | Some c \<Rightarrow> c) = ''USD''
                 then ''USD'' else ''NGN'')),
              ConsoleError [JStr ''Paystack initialization error:'',
                 js_or (js_get (js_get err ''response'') ''data'')
                   (js_or (js_get err ''message'') err)]])"
    using create_payment_failure_full [of pb amount e u err st] by blast
qed (rule signup_generic_failure login_generic_failure verify_generic_failure
      minutes_get_generic_failure minutes_post_generic_failure approve_generic_failure)+

text \<open>
  Claim C3 as stated fails for create-payment: when the gateway throws, the text of its
  error reaches the client in the response body.
\<close>

theorem caught_failures_counterexample:
  "paystack_initialize (demo_env\<lparr>paystack_initialize := (\<lambda>args. Inl failure)\<rparr>)
      (initialize_args (demo_env\<lparr>paystack_initialize := (\<lambda>args. Inl failure)\<rparr>)
         (JObj [(''id'', JStr ''id3'')]) 100 ''NGN'') = Inl failure
   \<and> fst (create_payment (demo_env\<lparr>paystack_initialize := (\<lambda>args. Inl failure)\<rparr>) demo_store
          (JObj [(''id'', JStr ''id3'')]) \<lparr>pb_amount = Some 100, pb_currency = None\<rparr>)
     = Response 500 (JObj [(''msg'', JStr ''Payment initialization failed''),
                           (''details'', JStr ''connect ECONNREFUSED 10.0.0.7:443'')])"
  by (simp add: create_payment_def Let_def failure_def js_or_def toUpperCase_def
      toUpperCase_char_def upper_table_def demo_env_def)

text \<open>
  A login while the store is unreachable, a verification while the gateway throws, a
  signup, a board-minutes upload and a donation whose write fails, and the approval of a
  user that does not exist.
\<close>

theorem caught_failures_witness:
  "login (demo_env\<lparr>store_fault := (\<lambda>s. Some failure)\<rparr>) demo_store
      \<lparr>lb_email = ''carol@kghs.com'', lb_password = ''carolpw''\<rparr>
     = (Response 500 (msg ''Server error''), demo_store, [ConsoleError [failure]])
   \<and> fst (verify (demo_env\<lparr>paystack_verify := (\<lambda>r. Inl failure)\<rparr>) demo_store
            (JObj [(''id'', JStr ''id3'')]) ''kghs-don-1'')
     = Response 500 (msg ''Verification failed'')
   \<and> signup (demo_env\<lparr>store_fault := (\<lambda>s. if s = Signup_save then Some failure else None)\<rparr>)
        demo_store
        \<lparr>sb_email = ''dora@kghs.com'', sb_password = ''pw'', sb_name = Some ''Dora'',
         sb_graduationYear = Some 2001\<rparr>
     = (Response 500 (msg ''Server error''), demo_store, [ConsoleError [failure]])
   \<and> minutes_post (demo_env\<lparr>store_fault := (\<lambda>s. if s = Minutes_save then Some failure else None)\<rparr>)
        demo_store (Some ''https://res.cloudinary.com/kghs/m1.pdf'') (Some ''May meeting'')
     = (Response 500 (msg ''Upload failed''), demo_store, [ConsoleError [failure]])
   \<and> verify (demo_env\<lparr>store_fault := (\<lambda>s. if s = Verify_save then Some failure else None)\<rparr>)
        demo_store (JObj [(''id'', JStr ''id3'')]) ''kghs-don-1''
     = (Response 500 (msg ''Verification failed''), demo_store,
        [PaystackVerify ''kghs-don-1'',
         ConsoleError [JStr ''Paystack verification error:'',
                       JStr ''connect ECONNREFUSED 10.0.0.7:443'']])
   \<and> approve demo_env demo_store ''id404'' True
     = (Response 500 (msg ''Server error''), demo_store,
        [ConsoleError [TypeError ''Cannot read properties of null (reading email)'']])"
proof (intro conjI)
  show "login (demo_env\<lparr>store_fault := (\<lambda>s. Some failure)\<rparr>) demo_store
      \<lparr>lb_email = ''carol@kghs.com'', lb_password = ''carolpw''\<rparr>
     = (Response 500 (msg ''Server error''), demo_store, [ConsoleError [failure]])"
    using caught_failures [where e = "demo_env\<lparr>store_fault := (\<lambda>s. Some failure)\<rparr>"
      and st = demo_store and err = failure
      and lb = "\<lparr>lb_email = ''carol@kghs.com'', lb_password = ''carolpw''\<rparr>"]
    by simp
  show "fst (verify (demo_env\<lparr>paystack_verify := (\<lambda>r. Inl failure)\<rparr>) demo_store
            (JObj [(''id'', JStr ''id3'')]) ''kghs-don-1'')
     = Response 500 (msg ''Verification failed'')"
    using caught_failures [where e = "demo_env\<lparr>paystack_verify := (\<lambda>r. Inl failure)\<rparr>"
      and st = demo_store and err = failure and u = "JObj [(''id'', JStr ''id3'')]"
      and r = "''kghs-don-1''"]
    by simp
  show "signup (demo_env\<lparr>store_fault := (\<lambda>s. if s = Signup_save then Some failure else None)\<rparr>)
        demo_store
        \<lparr>sb_email = ''dora@kghs.com'', sb_password = ''pw'', sb_name = Some ''Dora'',
         sb_graduationYear = Some 2001\<rparr>
     = (Response 500 (msg ''Server error''), demo_store, [ConsoleError [failure]])"
    using caught_failures [where
        e = "demo_env\<lparr>store_fault := (\<lambda>s. if s = Signup_save then Some failure else None)\<rparr>"
      and st = demo_store and err = failure
      and sb = "\<lparr>sb_email = ''dora@kghs.com'', sb_password = ''pw'', sb_name = Some ''Dora'',
         sb_graduationYear = Some 2001\<rparr>"]
    by (simp add: findOne_email_def demo_store_def demo_env_def alice_def bob_def carol_def)
  show "minutes_post (demo_env\<lparr>store_fault := (\<lambda>s. if s = Minutes_save then Some failure else None)\<rparr>)
        demo_store (Some ''https://res.cloudinary.com/kghs/m1.pdf'') (Some ''May meeting'')
     = (Response 500 (msg ''Upload failed''), demo_store, [ConsoleError [failure]])"
    using caught_failures [where
        e = "demo_env\<lparr>store_fault := (\<lambda>s. if s = Minutes_save then Some failure else None)\<rparr>"
      and st = demo_store and err = failure
      and path = "''https://res.cloudinary.com/kghs/m1.pdf''" and title = "''May meeting''"]
    by simp
  show "verify (demo_env\<lparr>store_fault := (\<lambda>s. if s = Verify_save then Some failure else None)\<rparr>)
        demo_store (JObj [(''id'', JStr ''id3'')]) ''kghs-don-1''
     = (Response 500 (msg ''Verification failed''), demo_store,
        [PaystackVerify ''kghs-don-1'',
         ConsoleError [JStr ''Paystack verification error:'',
                       JStr ''connect ECONNREFUSED 10.0.0.7:443'']])"
    using caught_failures [where
        e = "demo_env\<lparr>store_fault := (\<lambda>s. if s = Verify_save then Some failure else None)\<rparr>"
      and st = demo_store and err = failure and u = "JObj [(''id'', JStr ''id3'')]"
      and r = "''kghs-don-1''" and d = "\<lparr>vd_status = ''success'', vd_amount = 500000\<rparr>"]
    by (simp add: demo_env_def failure_def js_or_def)
  show "approve demo_env demo_store ''id404'' True
     = (Response 500 (msg ''Server error''), demo_store,
        [ConsoleError [TypeError ''Cannot read properties of null (reading email)'']])"
    using caught_failures [where e = demo_env and st = demo_store and i = "''id404''"]
    by (simp add: demo_env_def demo_store_def alice_def bob_def carol_def)
qed

section \<open>Payment verification\<close>

text \<open>
  Claim C4. When the gateway reports a status other than "success", verify-payment
  answers 400 with \<open>success: false\<close> and leaves the store as it was. The store changes
  only when the gateway reports "success", and then by exactly one new donation whose
  amount is the gateway amount divided by 100 and whose donor is the identity of the
  request.
\<close>

theorem verify_donation:
  "(\<forall>d. paystack_verify e r = Inr d \<and> vd_status d \<noteq> ''success''
        \<longrightarrow> verify e st u r = (Response 400 (JObj [(''success'', JBool False)]), st, [PaystackVerify r]))
   \<and> (fst (snd (verify e st u r)) \<noteq> st
        \<longrightarrow> (\<exists>d. paystack_verify e r = Inr d \<and> vd_status d = ''success''
                \<and> fst (verify e st u r)
                    = Response 200 (JObj [(''success'', JBool True), (''message'', JStr ''Donation successful!'')])
                \<and> fst (snd (verify e st u r)) = st\<lparr>donations := donations st @
                     [\<lparr>donation_id = new_id e,
                       donation_amount = vd_amount d / 100,
                       donation_donor = js_get u ''id'',
                       donation_date = now e\<rparr>]\<rparr>))"
  by (auto simp add: verify_def split: sum.splits option.splits)

text \<open>
  An abandoned payment creates nothing; a successful one of 500000 minor units records
  a donation of 5000 by the caller.
\<close>

theorem verify_donation_witness:
  "verify (demo_env\<lparr>paystack_verify := (\<lambda>r. Inr \<lparr>vd_status = ''abandoned'', vd_amount = 500000\<rparr>)\<rparr>)
      demo_store (JObj [(''id'', JStr ''id3'')]) ''kghs-don-1''
     = (Response 400 (JObj [(''success'', JBool False)]), demo_store, [PaystackVerify ''kghs-don-1''])
   \<and> donations (fst (snd (verify demo_env demo_store (JObj [(''id'', JStr ''id3'')]) ''kghs-don-1'')))
     = [\<lparr>donation_id = ''id100'', donation_amount = 5000, donation_donor = JStr ''id3'',
          donation_date = 1700000000000\<rparr>]"
  using verify_donation [of "demo_env\<lparr>paystack_verify := (\<lambda>r. Inr \<lparr>vd_status = ''abandoned'', vd_amount = 500000\<rparr>)\<rparr>"
      "''kghs-don-1''" demo_store "JObj [(''id'', JStr ''id3'')]"]
    verify_donation [of demo_env "''kghs-don-1''" demo_store "JObj [(''id'', JStr ''id3'')]"]
  by (simp add: demo_env_def demo_store_def verify_def)

section \<open>Payment creation\<close>

text \<open>
  Claim C5. A create-payment request with an amount of zero or less is answered 400
  "Invalid amount" and nothing is done besides (no gateway call, whatever the
  Authorization header of the request). With amount 100 and
  currency "usd" the first thing the handler does is to call the gateway, with the
  amount 10000 and the currency "USD".
\<close>

theorem create_payment_validation:
  "(amount \<le> 0 \<longrightarrow>
      create_payment e st u \<lparr>pb_amount = Some amount, pb_currency = c\<rparr>
        = (Response 400 (msg ''Invalid amount''), st, [])
      \<and> snd (snd (route_create_payment e st header \<lparr>pb_amount = Some amount, pb_currency = c\<rparr>)) = [])
   \<and> hd (snd (snd (create_payment e st u \<lparr>pb_amount = Some 100, pb_currency = Some ''usd''\<rparr>)))
        = PaystackInitialize (initialize_args e u 100 ''USD'')
   \<and> js_get (initialize_args e u 100 ''USD'') ''amount'' = JNum 10000
   \<and> js_get (initialize_args e u 100 ''USD'') ''currency'' = JStr ''USD''"
proof (intro conjI)
  show "amount \<le> 0 \<longrightarrow>
      create_payment e st u \<lparr>pb_amount = Some amount, pb_currency = c\<rparr>
        = (Response 400 (msg ''Invalid amount''), st, [])
      \<and> snd (snd (route_create_payment e st header \<lparr>pb_amount = Some amount, pb_currency = c\<rparr>)) = []"
    by (simp add: create_payment_def route_create_payment_def with_auth_def split: sum.splits)
  show "hd (snd (snd (create_payment e st u \<lparr>pb_amount = Some 100, pb_currency = Some ''usd''\<rparr>)))
        = PaystackInitialize (initialize_args e u 100 ''USD'')"
    by (simp add: create_payment_def Let_def toUpperCase_usd split: sum.splits)
  show "js_get (initialize_args e u 100 ''USD'') ''amount'' = JNum 10000"
    by (simp add: initialize_args_def Math_round_10000)
  show "js_get (initialize_args e u 100 ''USD'') ''currency'' = JStr ''USD''"
    by (simp add: initialize_args_def)
qed

text \<open>
  An amount of minus five.
\<close>

theorem create_payment_validation_witness:
  "create_payment demo_env demo_store (JObj [(''id'', JStr ''id3'')])
      \<lparr>pb_amount = Some (- 5), pb_currency = Some ''usd''\<rparr>
     = (Response 400 (msg ''Invalid amount''), demo_store, [])"
  using create_payment_validation [of "- 5" demo_env demo_store "JObj [(''id'', JStr ''id3'')]" "Some ''usd''"]
  by simp

section \<open>Directory listing\<close>

text \<open>
  Claim C6, as amended. Every record of a directory listing is a stored user without
  the fields \<open>password\<close> and \<open>isApproved\<close>; that user is approved, has the
  graduation year the \<open>year\<close> parameter casts to when that parameter is given, and,
  when the \<open>location\<close> parameter is given, has a location that the store's
  case-insensitive regular-expression search for the parameter accepts. The parameter is
  handed to the store as a regular expression, not as literal text.
\<close>

theorem directory_listing:
  assumes "fst (directory e st q) = Response s (JArr docs)" and "doc \<in> set docs"
  shows "\<not> has_key doc ''password'' \<and> \<not> has_key doc ''isApproved''
    \<and> (\<exists>u \<in> set (users st).
          doc = select_minus [''password'', ''isApproved''] (user_json u)
          \<and> user_isApproved u
          \<and> (\<forall>y. dq_year q = Some y \<and> y \<noteq> [] \<longrightarrow>
                (\<exists>n. cast_number e y = Some n \<and> user_graduationYear u = Some n))
          \<and> (\<forall>l. dq_location q = Some l \<and> l \<noteq> [] \<longrightarrow>
                (\<exists>m place. regex_i e l = Some m \<and> user_location u = Some place \<and> m place)))"
proof -
  from directory_body [OF assms(1)] obtain yr loc where
    body: "docs = map (\<lambda>u. select_minus [''password'', ''isApproved''] (user_json u))
                      (filter (directory_match yr loc) (users st))"
    and yr: "\<forall>y. dq_year q = Some y \<and> y \<noteq> [] \<longrightarrow> yr \<noteq> None \<and> cast_number e y = yr"
    and loc: "\<forall>l. dq_location q = Some l \<and> l \<noteq> [] \<longrightarrow> loc \<noteq> None \<and> regex_i e l = loc"
    by auto
  from assms(2) body obtain u where
    u: "u \<in> set (users st)" "directory_match yr loc u"
      "doc = select_minus [''password'', ''isApproved''] (user_json u)"
    by auto
  have hidden: "\<not> has_key doc ''password'' \<and> \<not> has_key doc ''isApproved''"
    using u(3) user_json_hidden by simp
  have appr: "user_isApproved u"
    using u(2) by (simp add: directory_match_def)
  have year: "\<forall>y. dq_year q = Some y \<and> y \<noteq> [] \<longrightarrow>
                (\<exists>n. cast_number e y = Some n \<and> user_graduationYear u = Some n)"
    using u(2) yr by (auto simp add: directory_match_def split: option.splits)
  have place: "\<forall>l. dq_location q = Some l \<and> l \<noteq> [] \<longrightarrow>
                (\<exists>m place. regex_i e l = Some m \<and> user_location u = Some place \<and> m place)"
    using u(2) loc by (auto simp add: directory_match_def split: option.splits)
  show ?thesis using hidden u(1) u(3) appr year place by blast
qed

text \<open>
  Claim C6 as stated fails for the location parameter ".": the listing contains Carol,
  whose location "Lagos" has no full stop in it.
\<close>

theorem directory_listing_counterexample:
  "fst (directory demo_env demo_store \<lparr>dq_year = None, dq_location = Some ''.''\<rparr>)
     = Response 200 (JArr [select_minus [''password'', ''isApproved''] (user_json alice),
                           select_minus [''password'', ''isApproved''] (user_json carol)])
   \<and> user_location carol = Some ''Lagos''
   \<and> \<not> contains_ci ''.'' ''Lagos''"
  by (simp add: directory_def demo_env_def demo_store_def directory_match_def
      alice_def bob_def carol_def toUpperCase_char_def upper_table_def)

text \<open>
  The listing for the year "2010" and the location ".".
\<close>

theorem directory_listing_witness:
  "fst (directory demo_env demo_store \<lparr>dq_year = Some ''2010'', dq_location = Some ''.''\<rparr>)
     = Response 200 (JArr [select_minus [''password'', ''isApproved''] (user_json carol)])
   \<and> \<not> has_key (select_minus [''password'', ''isApproved''] (user_json carol)) ''password''
   \<and> \<not> has_key (select_minus [''password'', ''isApproved''] (user_json carol)) ''isApproved''"
  using demo_directory
    directory_listing [of demo_env demo_store "\<lparr>dq_year = Some ''2010'', dq_location = Some ''.''\<rparr>"
      200 "[select_minus [''password'', ''isApproved''] (user_json carol)]"
      "select_minus [''password'', ''isApproved''] (user_json carol)"]
  by simp

section \<open>Admin-only routes\<close>

text \<open>
  Claim C7. For an authenticated identity whose stored record is not an admin's (or is
  missing), each of reading \<open>/api/admin/users\<close>, reading \<open>/api/donations\<close>, creating a
  News record and creating a BoardMinute record leaves the store untouched, has no other
  effect, never ends in a 200 response, and is answered 403 "Admin access required"
  whenever the middleware's read of the user record succeeds.
\<close>

theorem admin_only:
  assumes "authMiddleware e header = Inr req_user" and "\<not> is_admin st req_user"
  shows "\<forall>r \<in> {route_admin_users_get e st header, route_donations_get e st header,
               route_news_post e st header nb, route_minutes_post e st header f t}.
           snd r = (st, [])
           \<and> (\<forall>b. fst r \<noteq> Response 200 b)
           \<and> (store_fault e AdminMw_findById = None
                \<longrightarrow> fst r = Response 403 (msg ''Admin access required''))"
  using assms
  by (auto simp add: route_admin_users_get_def route_donations_get_def route_news_post_def
      route_minutes_post_def with_auth_def with_admin_non_admin split: option.splits)

text \<open>
  Carol, an alumna, tries to publish news.
\<close>

theorem admin_only_witness:
  "route_news_post demo_env demo_store (Some carol_token)
      \<lparr>nb_title = Some ''Hello'', nb_content = Some ''World'', nb_date = None\<rparr>
     = (Response 403 (msg ''Admin access required''), demo_store, [])"
proof -
  let ?u = "JObj [(''id'', JStr ''id3''), (''iat'', JNum 1700000000), (''exp'', JNum 1700604800)]"
  let ?nb = "\<lparr>nb_title = Some ''Hello'', nb_content = Some ''World'', nb_date = None\<rparr>"
  have na: "\<not> is_admin demo_store ?u"
    by (simp add: is_admin_def demo_store_def alice_def bob_def carol_def)
  have nf: "store_fault demo_env AdminMw_findById = None"
    by (simp add: demo_env_def)
  from admin_only [OF carol_auth na, of ?nb None None] nf
  have "snd (route_news_post demo_env demo_store (Some carol_token) ?nb) = (demo_store, [])
      \<and> fst (route_news_post demo_env demo_store (Some carol_token) ?nb)
           = Response 403 (msg ''Admin access required'')"
    by simp
  then show ?thesis by (simp add: prod_eq_iff)
qed

section \<open>Signup with a registered email\<close>

text \<open>
  Claim C8. A signup whose email belongs to a stored user is answered with an error (400
  "User already exists", or 500 when the store read fails) and leaves the store, and so
  the set of user records, unchanged.
\<close>

theorem signup_duplicate:
  assumes "u \<in> set (users st)" and "user_email u = sb_email body"
  shows "fst (snd (signup e st body)) = st
    \<and> fst (signup e st body) =
        (case store_fault e Signup_findOne of
           None \<Rightarrow> Response 400 (msg ''User already exists'')
         | Some err \<Rightarrow> Response 500 (msg ''Server error''))"
proof -
  have "find (\<lambda>x. user_email x = sb_email body) (users st) \<noteq> None"
    using assms by (auto simp add: find_None_iff)
  then obtain v where "findOne_email (users st) (sb_email body) = Some v"
    by (auto simp add: findOne_email_def)
  then show ?thesis
    by (cases "store_fault e Signup_findOne") (simp_all add: signup_def)
qed

text \<open>
  A second signup with Bob's email.
\<close>

theorem signup_duplicate_witness:
  "fst (snd (signup demo_env demo_store
       \<lparr>sb_email = ''bob@kghs.com'', sb_password = ''pw'', sb_name = Some ''Bobby'',
        sb_graduationYear = Some 2001\<rparr>)) = demo_store
   \<and> fst (signup demo_env demo_store
       \<lparr>sb_email = ''bob@kghs.com'', sb_password = ''pw'', sb_name = Some ''Bobby'',
        sb_graduationYear = Some 2001\<rparr>) = Response 400 (msg ''User already exists'')"
  using signup_duplicate [of bob demo_store
      "\<lparr>sb_email = ''bob@kghs.com'', sb_password = ''pw'', sb_name = Some ''Bobby'',
        sb_graduationYear = Some 2001\<rparr>" demo_env]
  by (simp add: demo_store_def demo_env_def bob_def)

section \<open>The email sent to the gateway\<close>



section \<open>Replies to a thread that does not exist\<close>

text \<open>
  Claim C10. For an authenticated reply request, the store read succeeding: when no
  stored thread has the given identifier the handler throws a TypeError that nothing
  catches, sends no response and persists nothing; when the thread exists and the write
  succeeds it answers 200 with the thread and the new reply at its end.
\<close>

theorem reply_thread_precondition:
  assumes "authMiddleware e header = Inr req_user" and "store_fault e Reply_findById = None"
  shows "(find (\<lambda>t. thread_id t = i) (threads st) = None \<longrightarrow>
            route_reply e st header i c
              = (Uncaught (TypeError ''Cannot read properties of null (reading replies)''), st, []))
    \<and> (\<forall>t. find (\<lambda>t. thread_id t = i) (threads st) = Some t \<and> store_fault e Reply_save = None \<longrightarrow>
            fst (route_reply e st header i c)
              = Response 200 (thread_json (t\<lparr>thread_replies := thread_replies t @
                   [\<lparr>reply_content = c, reply_author = js_get req_user ''id'',
                     reply_date = now e\<rparr>]\<rparr>)))"
  using assms by (simp add: route_reply_def with_auth_def reply_post_def Let_def)

text \<open>
  Carol replies to the thread "t404", which is not in the store.
\<close>

theorem reply_thread_precondition_witness:
  "route_reply demo_env demo_store (Some carol_token) ''t404'' (Some ''Hi'')
     = (Uncaught (TypeError ''Cannot read properties of null (reading replies)''), demo_store, [])"
proof -
  have nf: "store_fault demo_env Reply_findById = None"
    by (simp add: demo_env_def)
  have absent: "find (\<lambda>t. thread_id t = ''t404'') (threads demo_store) = None"
    by (simp add: demo_store_def demo_thread_def)
  from reply_thread_precondition [OF carol_auth nf, of "''t404''" demo_store "Some ''Hi''"] absent
  show ?thesis by simp
qed

end
